theory Spec2Isabelle
  imports Main "HOL-Library.Word"
begin

section \<open>The command-line helper \<open>getFlags\<close> (cli/cmd/util.go)\<close>

text \<open>
  Go strings are byte sequences; they are modelled as \<open>string\<close> (a list of 8-bit
  characters). A Go slice is modelled as a list: \<open>make([]string, n)\<close> is a slice of
  \<open>n\<close> empty strings, and \<open>append\<close> adds one element at the end.
\<close>

text \<open>\<open>strings.HasPrefix(s, prefix)\<close>: whether \<open>s\<close> begins with \<open>prefix\<close>.\<close>

definition HasPrefix :: "string \<Rightarrow> string \<Rightarrow> bool" where
  "HasPrefix s prefix = (length prefix \<le> length s \<and> take (length prefix) s = prefix)"

text \<open>
  \<open>strings.Replace(s, old, new, n)\<close> for a non-negative count \<open>n\<close>: the first \<open>n\<close>
  non-overlapping occurrences of \<open>old\<close>, scanning from the left, are replaced by
  \<open>new\<close>. The standard library returns \<open>s\<close> itself when \<open>n\<close> is zero; the only
  call site passes the non-empty \<open>old = "--"\<close>, and the rune-wise insertion Go performs
  for an empty \<open>old\<close> is not modelled (the string is returned as it is).
\<close>

function Replace :: "string \<Rightarrow> string \<Rightarrow> string \<Rightarrow> nat \<Rightarrow> string" where
  "Replace s old new n =
     (if n = 0 \<or> old = [] \<or> s = [] then s
      else if HasPrefix s old then new @ Replace (drop (length old) s) old new (n - 1)
      else hd s # Replace (tl s) old new n)"
  by pat_completeness auto
termination
  by (relation "measure (\<lambda>(s, old, new, n). length s)") auto

declare Replace.simps [simp del]

text \<open>
  \<^verbatim>\<open>
  func getFlags(args []string) []string {
      rv := make([]string, len(args))
      for _, arg := range args {
          if strings.HasPrefix(arg, "--") {
              rv = append(rv, strings.Replace(arg, "--", "", 1))
          }
      }
      return rv
  }
  \<close>
  The loop body is \<open>getFlags_step\<close>; the loop is a left fold over \<open>args\<close> that starts
  from the pre-sized slice.
\<close>

definition getFlags_step :: "string list \<Rightarrow> string \<Rightarrow> string list" where
  "getFlags_step rv arg =
     (if HasPrefix arg ''--'' then rv @ [Replace arg ''--'' '''' 1] else rv)"

definition getFlags :: "string list \<Rightarrow> string list" where
  "getFlags args = foldl getFlags_step (replicate (length args) '''') args"


section \<open>The MAC layer (contrib/openssl/crypto/evp/mac_lib.c)\<close>

subsection \<open>Data model\<close>

text \<open>
  Pointers are addresses, \<open>None\<close> is \<open>NULL\<close>. A \<open>size_t\<close> is a 64-bit word and a
  byte an 8-bit word; a C \<open>int\<close> that is only tested and passed on is an \<open>int\<close>.
\<close>

type_synonym addr = nat
type_synonym size_t = "64 word"
type_synonym byte = "8 word"

text \<open>
  An \<open>OSSL_PARAM\<close> entry: its key and the cell its data pointer refers to, with the
  cell's current content. A parameter array is the list of its entries; the terminating
  \<open>OSSL_PARAM_END\<close> is the end of the list. A handler that fills a bag returns the bag
  with the cells' new contents.
\<close>

datatype param_data =
    PARAM_INTEGER int
  | PARAM_UNSIGNED_INTEGER size_t
  | PARAM_UTF8_STRING string
  | PARAM_OCTET_STRING "byte list"

datatype OSSL_PARAM = OSSL_PARAM (param_key: string) (param_data: param_data)

text \<open>
  The two keys the layer itself asks for. Their header (openssl/core_names.h) is not
  among the sources; no result below depends on the spelling.
\<close>

definition OSSL_MAC_PARAM_SIZE :: string where
  "OSSL_MAC_PARAM_SIZE = ''size''"

definition OSSL_MAC_PARAM_XOF :: string where
  "OSSL_MAC_PARAM_XOF = ''xof''"

definition OSSL_PARAM_construct_size_t :: "string \<Rightarrow> size_t \<Rightarrow> OSSL_PARAM" where
  "OSSL_PARAM_construct_size_t k v = OSSL_PARAM k (PARAM_UNSIGNED_INTEGER v)"

definition OSSL_PARAM_construct_int :: "string \<Rightarrow> int \<Rightarrow> OSSL_PARAM" where
  "OSSL_PARAM_construct_int k v = OSSL_PARAM k (PARAM_INTEGER v)"

text \<open>
  Reading the variable \<open>sz\<close> back after a handler was given
  \<open>params[0] = OSSL_PARAM_construct_size_t(OSSL_MAC_PARAM_SIZE, &sz)\<close>: the content of
  the first entry's cell. A handler writes through the data pointers only, so the bag
  keeps its shape; for any other shape the variable keeps its initial value \<open>0\<close>.
\<close>

fun read_sz :: "OSSL_PARAM list \<Rightarrow> size_t" where
  "read_sz (OSSL_PARAM k (PARAM_UNSIGNED_INTEGER v) # ps) = v"
| "read_sz ps = 0"

text \<open>The reasons the layer passes to \<open>ERR_raise(ERR_LIB_EVP, ...)\<close>.\<close>

datatype reason =
    ERR_R_MALLOC_FAILURE
  | ERR_R_PASSED_NULL_PARAMETER
  | EVP_R_INVALID_NULL_ALGORITHM
  | EVP_R_FINAL_ERROR
  | EVP_R_SETTING_XOF_FAILED

text \<open>
  What C leaves undefined is a value of the model: a call through a null function
  pointer, and a read or write through a null or dangling pointer.
\<close>

datatype fault = Null_function_call | Invalid_pointer

text \<open>
  \<open>EVP_MAC\<close>, the algorithm descriptor: identity, reference count and the operation
  table. The layer knows nothing of the backend: \<open>'p\<close> is the type of the backend's
  context pointers (\<open>void *data\<close>) and \<open>'w\<close> the backend's own state, which every
  backend function that can change it takes and returns. Each entry of the table is a
  function pointer and may be null. A get handler returns its result and the bag as it
  filled it; it is handed mutable backend state like every other handler, so it takes
  and returns the backend's state too. The finalizer returns its result, the bytes it
  wrote to
  \<open>out\<close> and the length it stored in \<open>*outl\<close>. The provider back-reference
  \<open>prov\<close> is used by this file only to give the constructor its provider context;
  the constructor is a function of the backend's state here.
\<close>

record ('p, 'w) EVP_MAC =
  name_id :: int
  type_name :: string
  description :: string
  refcnt :: int
  newctx :: "('w \<Rightarrow> 'p option \<times> 'w) option"
  freectx :: "('p option \<Rightarrow> 'w \<Rightarrow> 'w) option"
  dupctx :: "('p option \<Rightarrow> 'w \<Rightarrow> 'p option \<times> 'w) option"
  init :: "('p option \<Rightarrow> byte list \<Rightarrow> OSSL_PARAM list \<Rightarrow> 'w \<Rightarrow> int \<times> 'w) option"
  update :: "('p option \<Rightarrow> byte list \<Rightarrow> 'w \<Rightarrow> int \<times> 'w) option"
  final :: "('p option \<Rightarrow> size_t \<Rightarrow> 'w \<Rightarrow> (int \<times> byte list \<times> size_t) \<times> 'w) option"
  get_params :: "(OSSL_PARAM list \<Rightarrow> 'w \<Rightarrow> (int \<times> OSSL_PARAM list) \<times> 'w) option"
  get_ctx_params ::
    "('p option \<Rightarrow> OSSL_PARAM list \<Rightarrow> 'w \<Rightarrow> (int \<times> OSSL_PARAM list) \<times> 'w) option"
  set_ctx_params :: "('p option \<Rightarrow> OSSL_PARAM list \<Rightarrow> 'w \<Rightarrow> int \<times> 'w) option"

text \<open>\<open>EVP_MAC_CTX\<close>: the descriptor pointer and the backend's context pointer.\<close>

record 'p EVP_MAC_CTX =
  meth :: "addr option"
  data :: "'p option"

text \<open>
  The machine state: the descriptors and the contexts on the heap, the backend's state,
  the next address the allocator hands out, and the error queue.
\<close>

record ('p, 'w) state =
  macs :: "addr \<rightharpoonup> ('p, 'w) EVP_MAC"
  ctxs :: "addr \<rightharpoonup> 'p EVP_MAC_CTX"
  backend :: 'w
  heap_next :: addr
  errs :: "reason list"

subsection \<open>Environment: errors and allocation\<close>

definition ERR_raise :: "reason \<Rightarrow> ('p, 'w) state \<Rightarrow> ('p, 'w) state" where
  "ERR_raise r st = st\<lparr>errs := errs st @ [r]\<rparr>"

text \<open>
  \<open>OPENSSL_malloc\<close>: whether the allocation succeeds is the environment's choice
  (\<open>ok\<close>); a successful one returns an address never handed out before.
  \<open>OPENSSL_zalloc\<close> also stores the zeroed structure.
\<close>

definition OPENSSL_malloc :: "bool \<Rightarrow> ('p, 'w) state \<Rightarrow> addr option \<times> ('p, 'w) state" where
  "OPENSSL_malloc ok st =
     (if ok then (Some (heap_next st), st\<lparr>heap_next := Suc (heap_next st)\<rparr>)
      else (None, st))"

definition OPENSSL_zalloc :: "bool \<Rightarrow> ('p, 'w) state \<Rightarrow> addr option \<times> ('p, 'w) state" where
  "OPENSSL_zalloc ok st =
     (case OPENSSL_malloc ok st of
        (None, st1) \<Rightarrow> (None, st1)
      | (Some a, st1) \<Rightarrow>
          (Some a, st1\<lparr>ctxs := (ctxs st1)(a \<mapsto> \<lparr>meth = None, data = None\<rparr>)\<rparr>))"

definition OPENSSL_free :: "addr option \<Rightarrow> ('p, 'w) state \<Rightarrow> ('p, 'w) state" where
  "OPENSSL_free p st =
     (case p of None \<Rightarrow> st | Some a \<Rightarrow> st\<lparr>ctxs := (ctxs st)(a := None)\<rparr>)"

subsection \<open>Descriptor reference counting\<close>

text \<open>
  Modelled from the spec: \<open>EVP_MAC_up_ref\<close> is called by mac_lib.c and defined
  elsewhere in the repository, outside the sources at hand. The spec, section 4.1:
  acquiring "increments reference count on success". The callers test its result, so
  whether it succeeds is the environment's choice (\<open>ok\<close>); a failed call changes
  nothing.
\<close>

definition EVP_MAC_up_ref :: "bool \<Rightarrow> addr option \<Rightarrow> ('p, 'w) state \<Rightarrow> fault + (int \<times> ('p, 'w) state)" where
  "EVP_MAC_up_ref ok mac st =
     (case mac of None \<Rightarrow> Inl Invalid_pointer | Some a \<Rightarrow>
      (case macs st a of None \<Rightarrow> Inl Invalid_pointer | Some m \<Rightarrow>
         if ok then Inr (1, st\<lparr>macs := (macs st)(a \<mapsto> m\<lparr>refcnt := refcnt m + 1\<rparr>)\<rparr>)
         else Inr (0, st)))"

text \<open>
  Modelled from the spec: \<open>EVP_MAC_free\<close> is called by mac_lib.c ("refcnt--") and
  defined elsewhere in the repository, outside the sources at hand. The spec, section
  4.1: release "decrements count; at zero, descriptor resources are torn down". A
  torn-down descriptor leaves the heap.
\<close>

definition EVP_MAC_free :: "addr option \<Rightarrow> ('p, 'w) state \<Rightarrow> fault + ('p, 'w) state" where
  "EVP_MAC_free mac st =
     (case mac of None \<Rightarrow> Inl Invalid_pointer | Some a \<Rightarrow>
      (case macs st a of None \<Rightarrow> Inl Invalid_pointer | Some m \<Rightarrow>
         if refcnt m - 1 = 0 then Inr (st\<lparr>macs := (macs st)(a := None)\<rparr>)
         else Inr (st\<lparr>macs := (macs st)(a \<mapsto> m\<lparr>refcnt := refcnt m - 1\<rparr>)\<rparr>)))"

text \<open>The descriptor a context pointer leads to: \<open>ctx->meth\<close>, then \<open>*ctx->meth\<close>.\<close>

definition deref_ctx :: "('p, 'w) state \<Rightarrow> addr \<Rightarrow> fault + 'p EVP_MAC_CTX" where
  "deref_ctx st ctx = (case ctxs st ctx of None \<Rightarrow> Inl Invalid_pointer | Some c \<Rightarrow> Inr c)"

definition deref_mac :: "('p, 'w) state \<Rightarrow> addr option \<Rightarrow> fault + ('p, 'w) EVP_MAC" where
  "deref_mac st mac =
     (case mac of None \<Rightarrow> Inl Invalid_pointer | Some a \<Rightarrow>
      (case macs st a of None \<Rightarrow> Inl Invalid_pointer | Some m \<Rightarrow> Inr m))"

definition ctx_meth :: "('p, 'w) state \<Rightarrow> addr \<Rightarrow> fault + ('p EVP_MAC_CTX \<times> ('p, 'w) EVP_MAC)" where
  "ctx_meth st ctx =
     (case deref_ctx st ctx of Inl f \<Rightarrow> Inl f | Inr c \<Rightarrow>
      (case deref_mac st (meth c) of Inl f \<Rightarrow> Inl f | Inr m \<Rightarrow> Inr (c, m)))"

subsection \<open>Context life cycle\<close>



text \<open>
  \<open>EVP_MAC_CTX_free\<close>: nothing for \<open>NULL\<close>; otherwise the backend's destructor, the
  field \<open>data\<close> cleared, the descriptor released and the structure freed. The pointer is
  dereferenced without any further test.
\<close>

definition EVP_MAC_CTX_free :: "addr option \<Rightarrow> ('p, 'w) state \<Rightarrow> fault + ('p, 'w) state" where
  "EVP_MAC_CTX_free ctx st =
     (case ctx of None \<Rightarrow> Inr st | Some a \<Rightarrow>
      (case ctx_meth st a of Inl f \<Rightarrow> Inl f | Inr (c, m) \<Rightarrow>
       (case freectx m of None \<Rightarrow> Inl Null_function_call | Some free \<Rightarrow>
          let st1 = st\<lparr>backend := free (data c) (backend st)\<rparr>;
              st2 = st1\<lparr>ctxs := (ctxs st1)(a \<mapsto> c\<lparr>data := None\<rparr>)\<rparr>
          in (case EVP_MAC_free (meth c) st2 of Inl f \<Rightarrow> Inl f
              | Inr st3 \<Rightarrow> Inr (OPENSSL_free (Some a) st3)))))"

text \<open>
  \<open>EVP_MAC_CTX_dup\<close>: every failure is the result \<open>NULL\<close>. The duplicator is called
  through the table without a test, after the reference was taken.
\<close>

definition EVP_MAC_CTX_dup ::
    "bool \<Rightarrow> bool \<Rightarrow> addr \<Rightarrow> ('p, 'w) state \<Rightarrow> fault + (addr option \<times> ('p, 'w) state)" where
  "EVP_MAC_CTX_dup malloc_ok up_ref_ok src st =
     (case deref_ctx st src of Inl f \<Rightarrow> Inl f | Inr s \<Rightarrow>
      if data s = None then Inr (None, st)
      else
       (case OPENSSL_malloc malloc_ok st of
          (None, st1) \<Rightarrow> Inr (None, ERR_raise ERR_R_MALLOC_FAILURE st1)
        | (Some dst, st1) \<Rightarrow>
           let st2 = st1\<lparr>ctxs := (ctxs st1)(dst \<mapsto> s)\<rparr> in
           (case EVP_MAC_up_ref up_ref_ok (meth s) st2 of Inl f \<Rightarrow> Inl f
            | Inr (r, st3) \<Rightarrow>
               if r = 0
               then Inr (None, OPENSSL_free (Some dst) (ERR_raise ERR_R_MALLOC_FAILURE st3))
               else
                (case deref_mac st3 (meth s) of Inl f \<Rightarrow> Inl f | Inr m \<Rightarrow>
                 (case dupctx m of None \<Rightarrow> Inl Null_function_call | Some dup \<Rightarrow>
                   (case dup (data s) (backend st3) of (d, w) \<Rightarrow>
                     let st4 = st3\<lparr>ctxs := (ctxs st3)(dst \<mapsto> s\<lparr>data := d\<rparr>), backend := w\<rparr> in
                     if d = None
                     then (case EVP_MAC_CTX_free (Some dst) st4 of Inl f \<Rightarrow> Inl f
                           | Inr st5 \<Rightarrow> Inr (None, st5))
                     else Inr (Some dst, st4)))))))"

definition EVP_MAC_CTX_mac :: "addr \<Rightarrow> ('p, 'w) state \<Rightarrow> fault + addr option" where
  "EVP_MAC_CTX_mac ctx st =
     (case deref_ctx st ctx of Inl f \<Rightarrow> Inl f | Inr c \<Rightarrow> Inr (meth c))"

subsection \<open>Parameters\<close>

text \<open>
  The three parameter calls: the handler's result when the table has one, \<open>1\<close>
  otherwise. A get call returns the result and the bag as the handler left it; every
  call returns the state with the backend's state as the handler left it.
\<close>

definition EVP_MAC_get_params ::
    "addr \<Rightarrow> OSSL_PARAM list \<Rightarrow> ('p, 'w) state \<Rightarrow>
     fault + ((int \<times> OSSL_PARAM list) \<times> ('p, 'w) state)" where
  "EVP_MAC_get_params mac params st =
     (case deref_mac st (Some mac) of Inl f \<Rightarrow> Inl f | Inr m \<Rightarrow>
      (case get_params m of
         Some get \<Rightarrow>
           (case get params (backend st) of (rp, w) \<Rightarrow> Inr (rp, st\<lparr>backend := w\<rparr>))
       | None \<Rightarrow> Inr ((1, params), st)))"

definition EVP_MAC_CTX_get_params ::
    "addr \<Rightarrow> OSSL_PARAM list \<Rightarrow> ('p, 'w) state \<Rightarrow>
     fault + ((int \<times> OSSL_PARAM list) \<times> ('p, 'w) state)" where
  "EVP_MAC_CTX_get_params ctx params st =
     (case ctx_meth st ctx of Inl f \<Rightarrow> Inl f | Inr (c, m) \<Rightarrow>
      (case get_ctx_params m of
         Some get \<Rightarrow>
           (case get (data c) params (backend st) of (rp, w) \<Rightarrow> Inr (rp, st\<lparr>backend := w\<rparr>))
       | None \<Rightarrow> Inr ((1, params), st)))"

definition EVP_MAC_CTX_set_params ::
    "addr \<Rightarrow> OSSL_PARAM list \<Rightarrow> ('p, 'w) state \<Rightarrow> fault + (int \<times> ('p, 'w) state)" where
  "EVP_MAC_CTX_set_params ctx params st =
     (case ctx_meth st ctx of Inl f \<Rightarrow> Inl f | Inr (c, m) \<Rightarrow>
      (case set_ctx_params m of
         Some setp \<Rightarrow>
           (case setp (data c) params (backend st) of (r, w) \<Rightarrow> Inr (r, st\<lparr>backend := w\<rparr>))
       | None \<Rightarrow> Inr (1, st)))"

subsection \<open>Output size, streaming and finalization\<close>

text \<open>
  \<open>EVP_MAC_CTX_get_mac_size\<close>: \<open>ctx->meth\<close> is read only when \<open>ctx->data\<close> is not
  null. The algorithm-level handler is asked only when the table has no context-level
  one. The result is the size together with the state the handler asked left.
\<close>

definition EVP_MAC_CTX_get_mac_size ::
    "addr \<Rightarrow> ('p, 'w) state \<Rightarrow> fault + (size_t \<times> ('p, 'w) state)" where
  "EVP_MAC_CTX_get_mac_size ctx st =
     (case deref_ctx st ctx of Inl f \<Rightarrow> Inl f | Inr c \<Rightarrow>
      if data c \<noteq> None then
        (case deref_mac st (meth c) of Inl f \<Rightarrow> Inl f | Inr m \<Rightarrow>
          let params = [OSSL_PARAM_construct_size_t OSSL_MAC_PARAM_SIZE 0] in
          (case get_ctx_params m of
             Some get \<Rightarrow>
               (case get (data c) params (backend st) of ((r, ps), w) \<Rightarrow>
                  if r \<noteq> 0 then Inr (read_sz ps, st\<lparr>backend := w\<rparr>)
                  else Inr (0, st\<lparr>backend := w\<rparr>))
           | None \<Rightarrow>
               (case get_params m of
                  Some get \<Rightarrow>
                    (case get params (backend st) of ((r, ps), w) \<Rightarrow>
                       if r \<noteq> 0 then Inr (read_sz ps, st\<lparr>backend := w\<rparr>)
                       else Inr (0, st\<lparr>backend := w\<rparr>))
                | None \<Rightarrow> Inr (0, st))))
      else Inr (0, st))"

definition EVP_MAC_init ::
    "addr \<Rightarrow> byte list \<Rightarrow> OSSL_PARAM list \<Rightarrow> ('p, 'w) state \<Rightarrow> fault + (int \<times> ('p, 'w) state)" where
  "EVP_MAC_init ctx k params st =
     (case ctx_meth st ctx of Inl f \<Rightarrow> Inl f | Inr (c, m) \<Rightarrow>
      (case init m of None \<Rightarrow> Inl Null_function_call | Some ini \<Rightarrow>
        (case ini (data c) k params (backend st) of (r, w) \<Rightarrow> Inr (r, st\<lparr>backend := w\<rparr>))))"

definition EVP_MAC_update ::
    "addr \<Rightarrow> byte list \<Rightarrow> ('p, 'w) state \<Rightarrow> fault + (int \<times> ('p, 'w) state)" where
  "EVP_MAC_update ctx bs st =
     (case ctx_meth st ctx of Inl f \<Rightarrow> Inl f | Inr (c, m) \<Rightarrow>
      (case update m of None \<Rightarrow> Inl Null_function_call | Some upd \<Rightarrow>
        (case upd (data c) bs (backend st) of (r, w) \<Rightarrow> Inr (r, st\<lparr>backend := w\<rparr>))))"

text \<open>
  The result of a finalize call: the returned \<open>int\<close>, the bytes written to \<open>out\<close>
  (\<open>None\<close> when nothing was written) and the value stored in \<open>*outl\<close> (\<open>None\<close> when
  nothing was stored).
\<close>

type_synonym final_result = "int \<times> byte list option \<times> size_t option"

text \<open>
  \<open>evp_mac_final\<close>. The arguments \<open>out\<close> and \<open>outl\<close> say whether the pointer is
  non-null.
\<close>

definition evp_mac_final ::
    "addr option \<Rightarrow> int \<Rightarrow> bool \<Rightarrow> bool \<Rightarrow> size_t \<Rightarrow> ('p, 'w) state \<Rightarrow>
     fault + (final_result \<times> ('p, 'w) state)" where
  "evp_mac_final ctx xof out outl outsize st =
     (case ctx of
        None \<Rightarrow> Inr ((0, None, None), ERR_raise EVP_R_INVALID_NULL_ALGORITHM st)
      | Some a \<Rightarrow>
       (case deref_ctx st a of Inl f \<Rightarrow> Inl f | Inr c \<Rightarrow>
        if meth c = None then Inr ((0, None, None), ERR_raise EVP_R_INVALID_NULL_ALGORITHM st)
        else
         (case deref_mac st (meth c) of Inl f \<Rightarrow> Inl f | Inr m \<Rightarrow>
          (case final m of
             None \<Rightarrow> Inr ((0, None, None), ERR_raise EVP_R_FINAL_ERROR st)
           | Some fin \<Rightarrow>
              if \<not> out then
                if \<not> outl then Inr ((0, None, None), ERR_raise ERR_R_PASSED_NULL_PARAMETER st)
                else
                  (case EVP_MAC_CTX_get_mac_size a st of Inl f \<Rightarrow> Inl f
                   | Inr (sz, st1) \<Rightarrow> Inr ((1, None, Some sz), st1))
              else
                (case (if xof \<noteq> 0
                       then EVP_MAC_CTX_set_params a
                              [OSSL_PARAM_construct_int OSSL_MAC_PARAM_XOF xof] st
                       else Inr (1, st)) of
                   Inl f \<Rightarrow> Inl f
                 | Inr (r, st1) \<Rightarrow>
                    if xof \<noteq> 0 \<and> r \<le> 0
                    then Inr ((0, None, None), ERR_raise EVP_R_SETTING_XOF_FAILED st1)
                    else
                      (case fin (data c) outsize (backend st1) of ((res, bytes, l), w) \<Rightarrow>
                         Inr ((res, Some bytes, if outl then Some l else None),
                              st1\<lparr>backend := w\<rparr>)))))))"

definition EVP_MAC_final ::
    "addr option \<Rightarrow> bool \<Rightarrow> bool \<Rightarrow> size_t \<Rightarrow> ('p, 'w) state \<Rightarrow>
     fault + (final_result \<times> ('p, 'w) state)" where
  "EVP_MAC_final ctx out outl outsize st = evp_mac_final ctx 0 out outl outsize st"


subsection \<open>Sequences of life-cycle calls\<close>







text \<open>
  The reference count of the descriptor at \<open>mac\<close>; a descriptor that was torn down (its
  count reached zero) holds no reference.
\<close>

definition refcount :: "('p, 'w) state \<Rightarrow> addr \<Rightarrow> int" where
  "refcount st mac = (case macs st mac of None \<Rightarrow> 0 | Some m \<Rightarrow> refcnt m)"



subsection \<open>A sample backend\<close>

text \<open>
  A backend to evaluate the layer on: its state is the list of its contexts' buffers, a
  context pointer is an index into it. Its declared output length is 32; its finalizer
  writes the buffer, padded with zeros, cut to 32 bytes and to the room it is given, and
  never rejects. It has a context-level get handler, which leaves the backend's state
  as it is, and no other parameter handler.
\<close>

definition stub_new :: "byte list list \<Rightarrow> nat option \<times> byte list list" where
  "stub_new w = (Some (length w), w @ [[]])"

definition stub_free :: "nat option \<Rightarrow> byte list list \<Rightarrow> byte list list" where
  "stub_free p w = (case p of None \<Rightarrow> w | Some i \<Rightarrow> w[i := []])"

definition stub_dup :: "nat option \<Rightarrow> byte list list \<Rightarrow> nat option \<times> byte list list" where
  "stub_dup p w =
     (case p of None \<Rightarrow> (None, w)
      | Some i \<Rightarrow> if i < length w then (Some (length w), w @ [w ! i]) else (None, w))"

definition stub_init ::
    "nat option \<Rightarrow> byte list \<Rightarrow> OSSL_PARAM list \<Rightarrow> byte list list \<Rightarrow> int \<times> byte list list" where
  "stub_init p k params w = (case p of None \<Rightarrow> (0, w) | Some i \<Rightarrow> (1, w[i := k]))"

definition stub_update :: "nat option \<Rightarrow> byte list \<Rightarrow> byte list list \<Rightarrow> int \<times> byte list list" where
  "stub_update p bs w =
     (case p of None \<Rightarrow> (0, w)
      | Some i \<Rightarrow> if i < length w then (1, w[i := w ! i @ bs]) else (0, w))"

definition stub_final ::
    "nat option \<Rightarrow> size_t \<Rightarrow> byte list list \<Rightarrow> (int \<times> byte list \<times> size_t) \<times> byte list list" where
  "stub_final p outsize w =
     (case p of None \<Rightarrow> ((0, [], 0), w)
      | Some i \<Rightarrow>
          if i < length w
          then (let bytes = take (min 32 (unat outsize)) (w ! i @ replicate 32 0)
                in ((1, bytes, of_nat (length bytes)), w))
          else ((0, [], 0), w))"

fun stub_fill :: "OSSL_PARAM \<Rightarrow> OSSL_PARAM" where
  "stub_fill (OSSL_PARAM k (PARAM_UNSIGNED_INTEGER v)) =
     (if k = OSSL_MAC_PARAM_SIZE then OSSL_PARAM k (PARAM_UNSIGNED_INTEGER 32)
      else OSSL_PARAM k (PARAM_UNSIGNED_INTEGER v))"
| "stub_fill p = p"

definition stub_get_ctx_params ::
    "nat option \<Rightarrow> OSSL_PARAM list \<Rightarrow> byte list list \<Rightarrow>
     (int \<times> OSSL_PARAM list) \<times> byte list list" where
  "stub_get_ctx_params p params w = ((1, map stub_fill params), w)"

definition stub32 :: "(nat, byte list list) EVP_MAC" where
  "stub32 =
     \<lparr>name_id = 1, type_name = ''stub-32'', description = ''sample backend'', refcnt = 1,
      newctx = Some stub_new, freectx = Some stub_free, dupctx = Some stub_dup,
      init = Some stub_init, update = Some stub_update, final = Some stub_final,
      get_params = None, get_ctx_params = Some stub_get_ctx_params, set_ctx_params = None\<rparr>"


definition stub_ctx_state ::
    "(nat, byte list list) EVP_MAC \<Rightarrow> nat option \<Rightarrow> byte list \<Rightarrow> (nat, byte list list) state" where
  "stub_ctx_state m d bs =
     \<lparr>macs = [0 \<mapsto> m\<lparr>refcnt := 2\<rparr>], ctxs = [0 \<mapsto> \<lparr>meth = Some 0, data = d\<rparr>],
      backend = [bs], heap_next = 1, errs = []\<rparr>"

text \<open>Two set handlers for the sample backend: one accepts every bag, one rejects.\<close>

definition stub_set_accept :: "nat option \<Rightarrow> OSSL_PARAM list \<Rightarrow> byte list list \<Rightarrow> int \<times> byte list list" where
  "stub_set_accept p params w = (1, w)"

definition stub_set_reject :: "nat option \<Rightarrow> OSSL_PARAM list \<Rightarrow> byte list list \<Rightarrow> int \<times> byte list list" where
  "stub_set_reject p params w = (0, w)"

text \<open>
  Context-level get handlers with no size to give: one knows none of the keys (it
  succeeds and leaves the bag as it is, the parameter protocol's tolerance of unknown
  keys), one reports failure.
\<close>

definition stub_get_ctx_ignore ::
    "nat option \<Rightarrow> OSSL_PARAM list \<Rightarrow> byte list list \<Rightarrow>
     (int \<times> OSSL_PARAM list) \<times> byte list list" where
  "stub_get_ctx_ignore p params w = ((1, params), w)"

definition stub_get_ctx_fail ::
    "nat option \<Rightarrow> OSSL_PARAM list \<Rightarrow> byte list list \<Rightarrow>
     (int \<times> OSSL_PARAM list) \<times> byte list list" where
  "stub_get_ctx_fail p params w = ((0, params), w)"

text \<open>An algorithm-level get handler that declares the size 32.\<close>

definition stub_get_params ::
    "OSSL_PARAM list \<Rightarrow> byte list list \<Rightarrow> (int \<times> OSSL_PARAM list) \<times> byte list list" where
  "stub_get_params params w = ((1, map stub_fill params), w)"

text \<open>
  Handlers that write to the context they are handed: a context-level get handler that
  declares the size 32 and empties the context's buffer, and a set handler that empties
  the buffer and then rejects.
\<close>

definition stub_get_ctx_reset ::
    "nat option \<Rightarrow> OSSL_PARAM list \<Rightarrow> byte list list \<Rightarrow>
     (int \<times> OSSL_PARAM list) \<times> byte list list" where
  "stub_get_ctx_reset p params w =
     ((1, map stub_fill params), case p of None \<Rightarrow> w | Some i \<Rightarrow> w[i := []])"

definition stub_set_reset_reject ::
    "nat option \<Rightarrow> OSSL_PARAM list \<Rightarrow> byte list list \<Rightarrow> int \<times> byte list list" where
  "stub_set_reset_reject p params w = (0, case p of None \<Rightarrow> w | Some i \<Rightarrow> w[i := []])"

section \<open>Results\<close>

subsection \<open>The flag list\<close>

lemma Replace_zero: "Replace s old new 0 = s"
  by (subst Replace.simps) simp

lemma Replace_prefix: "HasPrefix a ''--'' \<Longrightarrow> Replace a ''--'' '''' (Suc 0) = drop 2 a"
  by (subst Replace.simps) (auto simp: HasPrefix_def Replace_zero numeral_2_eq_2)

lemma foldl_getFlags_step:
  "foldl getFlags_step rv args =
     rv @ map (\<lambda>a. Replace a ''--'' '''' 1) (filter (\<lambda>a. HasPrefix a ''--'') args)"
  by (induction args arbitrary: rv) (simp_all add: getFlags_step_def)

lemma getFlags_eq:
  "getFlags args =
     replicate (length args) '''' @
     map (\<lambda>a. Replace a ''--'' '''' 1) (filter (\<lambda>a. HasPrefix a ''--'') args)"
  by (simp add: getFlags_def foldl_getFlags_step)

text \<open>
  Claim C10. For every argument list \<open>args\<close>, \<open>getFlags\<close> returns a slice of length
  \<open>len(args) + k\<close>, where \<open>k\<close> is the number of elements of \<open>args\<close> that begin with
  "--": its first \<open>len(args)\<close> entries are empty strings, and the remaining \<open>k\<close> entries
  are the flagged arguments with their first "--" removed (which, the "--" being a
  prefix, is the argument without its first two characters), in input order.
\<close>

theorem getFlags_shape:
  "length (getFlags args) = length args + length (filter (\<lambda>a. HasPrefix a ''--'') args)
   \<and> take (length args) (getFlags args) = replicate (length args) ''''
   \<and> drop (length args) (getFlags args) =
       map (\<lambda>a. Replace a ''--'' '''' 1) (filter (\<lambda>a. HasPrefix a ''--'') args)
   \<and> map (\<lambda>a. Replace a ''--'' '''' 1) (filter (\<lambda>a. HasPrefix a ''--'') args) =
       map (drop 2) (filter (\<lambda>a. HasPrefix a ''--'') args)"
proof -
  have "map (\<lambda>a. Replace a ''--'' '''' 1) (filter (\<lambda>a. HasPrefix a ''--'') args) =
        map (drop 2) (filter (\<lambda>a. HasPrefix a ''--'') args)"
    by (rule map_cong) (simp_all add: Replace_prefix)
  then show ?thesis
    by (simp add: getFlags_eq)
qed

theorem getFlags_shape_witness:
  "getFlags [''--help'', ''run'', ''--a--b'', ''-x'', ''--''] =
     ['''', '''', '''', '''', '''', ''help'', ''a--b'', '''']"
proof -
  let ?args = "[''--help'', ''run'', ''--a--b'', ''-x'', ''--'']"
  have f: "filter (\<lambda>a. HasPrefix a ''--'') ?args = [''--help'', ''--a--b'', ''--'']"
    by (simp add: HasPrefix_def)
  have "getFlags ?args = take (length ?args) (getFlags ?args) @ drop (length ?args) (getFlags ?args)"
    by simp
  also have "\<dots> = replicate (length ?args) '''' @ map (drop 2) (filter (\<lambda>a. HasPrefix a ''--'') ?args)"
    using getFlags_shape [of ?args] by simp
  also have "\<dots> = ['''', '''', '''', '''', '''', ''help'', ''a--b'', '''']"
    unfolding f by (simp add: numeral_eq_Suc)
  finally show ?thesis .
qed

subsection \<open>The life-cycle calls, case by case\<close>

text \<open>
  Each call, under the conditions that select one path through it, as one equation on
  the state.
\<close>


lemmas heap_defs = deref_ctx_def deref_mac_def ctx_meth_def OPENSSL_malloc_def OPENSSL_zalloc_def
  OPENSSL_free_def ERR_raise_def EVP_MAC_up_ref_def EVP_MAC_free_def

lemma free_null: "EVP_MAC_CTX_free None st = Inr st"
  by (simp add: EVP_MAC_CTX_free_def)

lemma free_live:
  assumes "ctxs st a = Some c" "meth c = Some mac" "macs st mac = Some m" "freectx m = Some free"
  shows "EVP_MAC_CTX_free (Some a) st =
     Inr (st\<lparr>backend := free (data c) (backend st),
              ctxs := (ctxs st)(a := None),
              macs := (if refcnt m - 1 = 0 then (macs st)(mac := None)
                       else (macs st)(mac \<mapsto> m\<lparr>refcnt := refcnt m - 1\<rparr>))\<rparr>)"
  using assms by (simp add: EVP_MAC_CTX_free_def heap_defs)





lemma dup_no_data:
  "ctxs st src = Some s \<Longrightarrow> data s = None \<Longrightarrow> EVP_MAC_CTX_dup a u src st = Inr (None, st)"
  by (simp add: EVP_MAC_CTX_dup_def heap_defs)

lemma dup_malloc_failed:
  "ctxs st src = Some s \<Longrightarrow> data s = Some p \<Longrightarrow>
   EVP_MAC_CTX_dup False u src st = Inr (None, st\<lparr>errs := errs st @ [ERR_R_MALLOC_FAILURE]\<rparr>)"
  by (simp add: EVP_MAC_CTX_dup_def heap_defs)

lemma dup_up_ref_failed:
  assumes "ctxs st src = Some s" "data s = Some p" "meth s = Some mac" "macs st mac = Some m"
  shows "EVP_MAC_CTX_dup True False src st =
     Inr (None, st\<lparr>heap_next := Suc (heap_next st),
                    ctxs := (ctxs st)(heap_next st := None),
                    errs := errs st @ [ERR_R_MALLOC_FAILURE]\<rparr>)"
  using assms by (simp add: EVP_MAC_CTX_dup_def heap_defs)


lemma dup_ok:
  assumes "ctxs st src = Some s" "data s = Some p" "meth s = Some mac" "macs st mac = Some m"
    "dupctx m = Some dup" "dup (data s) (backend st) = (Some d, w)"
  shows "EVP_MAC_CTX_dup True True src st =
     Inr (Some (heap_next st),
          st\<lparr>heap_next := Suc (heap_next st), backend := w,
             ctxs := (ctxs st)(heap_next st \<mapsto> s\<lparr>data := Some d\<rparr>),
             macs := (macs st)(mac \<mapsto> m\<lparr>refcnt := refcnt m + 1\<rparr>)\<rparr>)"
  using assms by (simp add: EVP_MAC_CTX_dup_def heap_defs)

lemma dup_duplicator_failed:
  assumes "ctxs st src = Some s" "data s = Some p" "meth s = Some mac" "macs st mac = Some m"
    "dupctx m = Some dup" "dup (data s) (backend st) = (None, w)" "freectx m = Some free"
    "refcnt m \<noteq> 0"
  shows "EVP_MAC_CTX_dup True True src st =
     Inr (None,
          st\<lparr>heap_next := Suc (heap_next st), backend := free None w,
             ctxs := (ctxs st)(heap_next st := None)\<rparr>)"
  using assms by (simp add: EVP_MAC_CTX_dup_def EVP_MAC_CTX_free_def heap_defs map_upd_triv)


subsection \<open>Well-formed heaps\<close>










subsection \<open>Every call keeps the heap well formed\<close>









subsection \<open>Evaluating on the sample backend\<close>

lemmas stub_defs = stub_ctx_state_def stub32_def stub_final_def stub_get_ctx_params_def
  stub_get_params_def stub_new_def stub_free_def stub_dup_def stub_init_def stub_update_def
  stub_set_accept_def stub_set_reject_def stub_get_ctx_ignore_def stub_get_ctx_fail_def
  stub_get_ctx_reset_def stub_set_reset_reject_def
  OSSL_PARAM_construct_size_t_def OSSL_PARAM_construct_int_def OSSL_MAC_PARAM_SIZE_def
  OSSL_MAC_PARAM_XOF_def

lemma ctx_meth_live:
  "ctx_meth st ctx = Inr (c, m) \<longleftrightarrow>
     ctxs st ctx = Some c \<and> (\<exists>mac. meth c = Some mac \<and> macs st mac = Some m)"
  by (auto simp: ctx_meth_def deref_ctx_def deref_mac_def split: option.splits)

lemma ctx_meth_stub:
  "ctx_meth (stub_ctx_state m d bs) 0 = Inr (\<lparr>meth = Some 0, data = d\<rparr>, m\<lparr>refcnt := 2\<rparr>)"
  by (simp add: ctx_meth_def deref_ctx_def deref_mac_def stub_ctx_state_def)

lemma stub_ctx_state_live:
  "ctxs (stub_ctx_state m d bs) 0 = Some \<lparr>meth = Some 0, data = d\<rparr>"
  "macs (stub_ctx_state m d bs) 0 = Some (m\<lparr>refcnt := 2\<rparr>)"
  "ctxs (stub_ctx_state m d bs) (heap_next (stub_ctx_state m d bs)) = None"
  by (simp_all add: stub_ctx_state_def)

subsection \<open>Duplicating a context\<close>

text \<open>
  With a duplicator in the table (and a destructor, and a non-zero reference count),
  \<open>EVP_MAC_CTX_dup\<close> on a live context is the following: \<open>NULL\<close> with the reference
  count as it was when the source has no backend state, when the allocation or taking
  the reference fails, and when the duplicator returns \<open>NULL\<close>; otherwise a context at
  an address not in use before, with the source's descriptor and the backend state the
  duplicator returned, the source unchanged and the reference count one higher.
\<close>

lemma dup_with_duplicator:
  assumes "ctxs st src = Some s" and "meth s = Some mac" and "macs st mac = Some m"
    and "dupctx m = Some dup" and "freectx m = Some free" and "refcnt m \<noteq> 0"
    and "ctxs st (heap_next st) = None"
  shows "EVP_MAC_CTX_dup malloc_ok up_ref_ok src st =
     (if data s = None then Inr (None, st)
      else if \<not> malloc_ok then Inr (None, ERR_raise ERR_R_MALLOC_FAILURE st)
      else if \<not> up_ref_ok
      then Inr (None, ERR_raise ERR_R_MALLOC_FAILURE (st\<lparr>heap_next := Suc (heap_next st)\<rparr>))
      else (case dup (data s) (backend st) of
              (None, w) \<Rightarrow>
                Inr (None, st\<lparr>heap_next := Suc (heap_next st), backend := free None w\<rparr>)
            | (Some d, w) \<Rightarrow>
                Inr (Some (heap_next st),
                     st\<lparr>heap_next := Suc (heap_next st), backend := w,
                        ctxs := (ctxs st)(heap_next st \<mapsto> s\<lparr>data := Some d\<rparr>),
                        macs := (macs st)(mac \<mapsto> m\<lparr>refcnt := refcnt m + 1\<rparr>)\<rparr>)))
   \<and> (case EVP_MAC_CTX_dup malloc_ok up_ref_ok src st of
         Inl f \<Rightarrow> False
       | Inr (res, st') \<Rightarrow>
           refcount st' mac = refcount st mac + (if res = None then 0 else 1)
           \<and> ctxs st' src = Some s)"
proof -
  have idem: "(ctxs st)(heap_next st := None) = ctxs st"
    using assms(7) by (rule fun_upd_idem)
  have ne: "src \<noteq> heap_next st" using assms(1,7) by auto
  show ?thesis
  proof (cases "data s")
    case None
    then show ?thesis using dup_no_data [OF assms(1) None] assms(1) by simp
  next
    case (Some p)
    note p = Some
    show ?thesis
    proof (cases malloc_ok)
      case False
      then show ?thesis
        using dup_malloc_failed [OF assms(1) p] p assms(1)
        by (simp add: ERR_raise_def refcount_def)
    next
      case True
      note a = True
      show ?thesis
      proof (cases up_ref_ok)
        case False
        then show ?thesis
          using dup_up_ref_failed [OF assms(1) p assms(2,3)] p a assms(1) idem
          by (simp add: ERR_raise_def refcount_def)
      next
        case True
        obtain d w where dw: "dup (data s) (backend st) = (d, w)"
          by (cases "dup (data s) (backend st)")
        show ?thesis
        proof (cases d)
          case None
          then show ?thesis
            using dup_duplicator_failed [OF assms(1) p assms(2,3,4) dw [unfolded None] assms(5,6)]
              p a True dw assms(1) idem
            by (simp add: refcount_def)
        next
          case (Some q)
          then show ?thesis
            using dup_ok [OF assms(1) p assms(2,3,4) dw [unfolded Some]] p a True dw assms(1,3) ne
            by (simp add: refcount_def)
        qed
      qed
    qed
  qed
qed

lemma dup_with_duplicator_sample:
  "EVP_MAC_CTX_dup True True 0 (stub_ctx_state stub32 (Some 0) [1, 2, 3]) =
     Inr (Some 1,
          \<lparr>macs = [0 \<mapsto> stub32\<lparr>refcnt := 3\<rparr>],
           ctxs = [0 \<mapsto> \<lparr>meth = Some 0, data = Some 0\<rparr>, 1 \<mapsto> \<lparr>meth = Some 0, data = Some 1\<rparr>],
           backend = [[1, 2, 3], [1, 2, 3]], heap_next = 2, errs = []\<rparr>)"
proof -
  let ?st = "stub_ctx_state stub32 (Some 0) [1, 2, 3]"
  have h: "meth \<lparr>meth = Some 0, data = Some (0::nat)\<rparr> = Some 0"
    "dupctx (stub32\<lparr>refcnt := 2\<rparr>) = Some stub_dup"
    "freectx (stub32\<lparr>refcnt := 2\<rparr>) = Some stub_free"
    "refcnt (stub32\<lparr>refcnt := 2\<rparr>) \<noteq> 0"
    by (simp_all add: stub32_def)
  show ?thesis
    using dup_with_duplicator [OF stub_ctx_state_live(1) h(1) stub_ctx_state_live(2) h(2,3,4)
        stub_ctx_state_live(3), of True True]
    by (simp add: stub_dup_def stub_ctx_state_def stub32_def)
qed

text \<open>
  Claim C1. The claim asks that duplicating a context whose descriptor declares no
  duplicator fail with \<open>Unsupported\<close>. \<open>EVP_MAC_CTX_dup\<close> does not test the table
  entry: on the live context of the sample backend with the duplicator removed, with
  the allocation and the reference both granted, it calls through the null entry
  (\<open>src->meth->dupctx(src->data)\<close>), after the reference was taken. The result is
  undefined behaviour, not a failure; the finalizer and the parameter handlers of the
  same table are tested for null before they are called.
\<close>

theorem dup_without_duplicator:
  "EVP_MAC_CTX_dup True True 0 (stub_ctx_state (stub32\<lparr>dupctx := None\<rparr>) (Some 0) [1, 2, 3]) =
     Inl Null_function_call"
  by (simp add: EVP_MAC_CTX_dup_def heap_defs stub_ctx_state_def stub32_def)

subsection \<open>Compute-mode finalization\<close>

text \<open>
  Claim C2, amended. For every live context whose descriptor provides a finalizer, a
  compute-mode \<open>EVP_MAC_final\<close> (output buffer present) hands the buffer size to the
  backend's finalizer as it is and returns exactly what the finalizer returns: its
  result, the bytes it wrote and, when asked for, the length it reported. The layer
  compares the buffer size with nothing and raises no error of its own: a buffer smaller
  than the declared output length is refused only if the backend's finalizer refuses it.
\<close>

theorem final_compute_delegates:
  assumes "ctx_meth st ctx = Inr (c, m)" and "final m = Some fin"
    and "fin (data c) outsize (backend st) = ((res, bytes, l), w)"
  shows "EVP_MAC_final (Some ctx) True outl outsize st =
           Inr ((res, Some bytes, if outl then Some l else None), st\<lparr>backend := w\<rparr>)"
  using assms
  by (auto simp: EVP_MAC_final_def evp_mac_final_def ctx_meth_live deref_ctx_def deref_mac_def)

theorem final_compute_delegates_witness:
  "EVP_MAC_final (Some 0) True True 32 (stub_ctx_state stub32 (Some 0) [1, 2, 3]) =
     Inr ((1, Some (take 32 ([1, 2, 3] @ replicate 32 0)), Some 32),
          stub_ctx_state stub32 (Some 0) [1, 2, 3])"
proof -
  let ?st = "stub_ctx_state stub32 (Some 0) [1, 2, 3]"
  have f: "final (stub32\<lparr>refcnt := 2\<rparr>) = Some stub_final" by (simp add: stub32_def)
  have r: "stub_final (data \<lparr>meth = Some 0, data = Some 0\<rparr>) 32 (backend ?st) =
            ((1, take 32 ([1, 2, 3] @ replicate 32 0), 32), backend ?st)"
    by (simp add: stub_final_def stub_ctx_state_def)
  show ?thesis
    using final_compute_delegates [OF ctx_meth_stub f r, of True] by simp
qed

text \<open>
  The sample backend declares 32 bytes of output; a compute-mode call with a 16-byte
  buffer returns 1, with 16 bytes written, and the error queue stays empty.
\<close>

theorem undersized_buffer_counterexample:
  "EVP_MAC_CTX_get_mac_size 0 (stub_ctx_state stub32 (Some 0) [1, 2, 3]) =
     Inr (32, stub_ctx_state stub32 (Some 0) [1, 2, 3])
   \<and> EVP_MAC_final (Some 0) True True 16 (stub_ctx_state stub32 (Some 0) [1, 2, 3]) =
       Inr ((1, Some (take 16 ([1, 2, 3] @ replicate 32 0)), Some 16),
            stub_ctx_state stub32 (Some 0) [1, 2, 3])
   \<and> errs (stub_ctx_state stub32 (Some 0) [1, 2, 3]) = []"
  by (simp add: EVP_MAC_CTX_get_mac_size_def EVP_MAC_final_def evp_mac_final_def
      deref_ctx_def deref_mac_def stub_defs)

subsection \<open>The output size\<close>

lemma get_mac_size_eq:
  assumes "ctx_meth st ctx = Inr (c, m)"
  shows "EVP_MAC_CTX_get_mac_size ctx st =
     Inr (if data c = None then (0, st)
          else case get_ctx_params m of
                 Some get \<Rightarrow>
                   (case get (data c) [OSSL_PARAM_construct_size_t OSSL_MAC_PARAM_SIZE 0] (backend st) of
                      ((r, ps), w) \<Rightarrow> (if r \<noteq> 0 then read_sz ps else 0, st\<lparr>backend := w\<rparr>))
               | None \<Rightarrow>
                   (case get_params m of
                      Some get \<Rightarrow>
                        (case get [OSSL_PARAM_construct_size_t OSSL_MAC_PARAM_SIZE 0] (backend st) of
                           ((r, ps), w) \<Rightarrow> (if r \<noteq> 0 then read_sz ps else 0, st\<lparr>backend := w\<rparr>))
                    | None \<Rightarrow> (0, st)))"
  using assms
  by (auto simp: EVP_MAC_CTX_get_mac_size_def ctx_meth_live deref_ctx_def deref_mac_def
      split: option.splits prod.splits)

lemma get_mac_size_backend:
  assumes "ctx_meth st ctx = Inr (c, m)"
  shows "\<exists>sz w. EVP_MAC_CTX_get_mac_size ctx st = Inr (sz, st\<lparr>backend := w\<rparr>)"
proof -
  have "\<exists>w. st = st\<lparr>backend := w\<rparr>"
    by (rule exI [of _ "backend st"]) simp
  then show ?thesis
    unfolding get_mac_size_eq [OF assms]
    by (auto split: option.splits prod.splits)
qed

text \<open>
  Claim C3, amended. For every live context, \<open>EVP_MAC_CTX_get_mac_size\<close> returns a
  size and never an error, and changes nothing but the backend state, which is as the
  handler asked left it. With backend state present it asks for the declared output
  length through the parameter protocol, with the one-entry bag for the key \<open>size\<close>:
  the context-level handler when the table has one, and the algorithm-level handler
  only when the table has no context-level handler. The answer is the size the handler
  asked wrote when that handler reports success. It is 0 when the backend state is
  absent, when the handler asked reports failure or writes no size, and when the table
  has neither handler. A context-level handler that yields no size is not followed by a
  query at the algorithm level.
\<close>

theorem get_mac_size_cases:
  assumes "ctx_meth st ctx = Inr (c, m)"
  shows "(\<exists>sz w. EVP_MAC_CTX_get_mac_size ctx st = Inr (sz, st\<lparr>backend := w\<rparr>))
     \<and> (data c = None \<longrightarrow> EVP_MAC_CTX_get_mac_size ctx st = Inr (0, st))
     \<and> (\<forall>get r ps w. data c \<noteq> None \<and> get_ctx_params m = Some get
           \<and> get (data c) [OSSL_PARAM_construct_size_t OSSL_MAC_PARAM_SIZE 0] (backend st) = ((r, ps), w)
         \<longrightarrow> EVP_MAC_CTX_get_mac_size ctx st =
               Inr (if r \<noteq> 0 then read_sz ps else 0, st\<lparr>backend := w\<rparr>))
     \<and> (\<forall>get r ps w. data c \<noteq> None \<and> get_ctx_params m = None \<and> get_params m = Some get
           \<and> get [OSSL_PARAM_construct_size_t OSSL_MAC_PARAM_SIZE 0] (backend st) = ((r, ps), w)
         \<longrightarrow> EVP_MAC_CTX_get_mac_size ctx st =
               Inr (if r \<noteq> 0 then read_sz ps else 0, st\<lparr>backend := w\<rparr>))
     \<and> (get_ctx_params m = None \<and> get_params m = None
         \<longrightarrow> EVP_MAC_CTX_get_mac_size ctx st = Inr (0, st))"
  using get_mac_size_backend [OF assms]
  unfolding get_mac_size_eq [OF assms] by auto

theorem get_mac_size_cases_witness:
  "EVP_MAC_CTX_get_mac_size 0 (stub_ctx_state stub32 (Some 0) []) =
     Inr (32, stub_ctx_state stub32 (Some 0) [])
   \<and> EVP_MAC_CTX_get_mac_size 0 (stub_ctx_state stub32 None []) =
     Inr (0, stub_ctx_state stub32 None [])
   \<and> EVP_MAC_CTX_get_mac_size 0
        (stub_ctx_state (stub32\<lparr>get_ctx_params := None, get_params := Some stub_get_params\<rparr>)
           (Some 0) []) =
     Inr (32, stub_ctx_state (stub32\<lparr>get_ctx_params := None, get_params := Some stub_get_params\<rparr>)
           (Some 0) [])
   \<and> EVP_MAC_CTX_get_mac_size 0
        (stub_ctx_state (stub32\<lparr>get_ctx_params := None\<rparr>) (Some 0) []) =
     Inr (0, stub_ctx_state (stub32\<lparr>get_ctx_params := None\<rparr>) (Some 0) [])"
proof -
  let ?bag = "[OSSL_PARAM_construct_size_t OSSL_MAC_PARAM_SIZE 0]"
  let ?alg = "stub32\<lparr>get_ctx_params := None, get_params := Some stub_get_params\<rparr>"
  have g: "get_ctx_params (stub32\<lparr>refcnt := 2\<rparr>) = Some stub_get_ctx_params"
    by (simp add: stub32_def)
  have r: "stub_get_ctx_params (Some 0) ?bag (backend (stub_ctx_state stub32 (Some 0) [])) =
           ((1, [OSSL_PARAM OSSL_MAC_PARAM_SIZE (PARAM_UNSIGNED_INTEGER 32)]),
            backend (stub_ctx_state stub32 (Some 0) []))"
    by (simp add: stub_get_ctx_params_def OSSL_PARAM_construct_size_t_def)
  have a: "get_ctx_params (?alg\<lparr>refcnt := 2\<rparr>) = None
           \<and> get_params (?alg\<lparr>refcnt := 2\<rparr>) = Some stub_get_params"
    by (simp add: stub32_def)
  have ra: "stub_get_params ?bag (backend (stub_ctx_state ?alg (Some 0) [])) =
           ((1, [OSSL_PARAM OSSL_MAC_PARAM_SIZE (PARAM_UNSIGNED_INTEGER 32)]),
            backend (stub_ctx_state ?alg (Some 0) []))"
    by (simp add: stub_get_params_def OSSL_PARAM_construct_size_t_def)
  have n: "get_ctx_params (stub32\<lparr>get_ctx_params := None, refcnt := 2\<rparr>) = None
           \<and> get_params (stub32\<lparr>get_ctx_params := None, refcnt := 2\<rparr>) = None"
    by (simp add: stub32_def)
  show ?thesis
    using get_mac_size_cases [OF ctx_meth_stub [of stub32 "Some 0" "[]"]]
      get_mac_size_cases [OF ctx_meth_stub [of stub32 None "[]"]]
      get_mac_size_cases [OF ctx_meth_stub [of ?alg "Some 0" "[]"]]
      get_mac_size_cases [OF ctx_meth_stub [of "stub32\<lparr>get_ctx_params := None\<rparr>" "Some 0" "[]"]]
      g r a ra n
    by simp
qed

text \<open>
  The claim as it was stated has the size fall back to the algorithm-level default when
  the context has none configured. With both handlers in the table, and an
  algorithm-level handler that declares 32, the context-level handler has no size to
  give: in the first table it succeeds and writes nothing, in the second it reports
  failure. The size is 0 both times: the algorithm-level handler is not asked.
\<close>

theorem get_mac_size_no_fallback_counterexample:
  "EVP_MAC_CTX_get_mac_size 0
     (stub_ctx_state
        (stub32\<lparr>get_ctx_params := Some stub_get_ctx_ignore, get_params := Some stub_get_params\<rparr>)
        (Some 0) []) =
     Inr (0, stub_ctx_state
        (stub32\<lparr>get_ctx_params := Some stub_get_ctx_ignore, get_params := Some stub_get_params\<rparr>)
        (Some 0) [])
   \<and> EVP_MAC_CTX_get_mac_size 0
     (stub_ctx_state
        (stub32\<lparr>get_ctx_params := Some stub_get_ctx_fail, get_params := Some stub_get_params\<rparr>)
        (Some 0) []) =
     Inr (0, stub_ctx_state
        (stub32\<lparr>get_ctx_params := Some stub_get_ctx_fail, get_params := Some stub_get_params\<rparr>)
        (Some 0) [])
   \<and> stub_get_params [OSSL_PARAM_construct_size_t OSSL_MAC_PARAM_SIZE 0] [[]] =
       ((1, [OSSL_PARAM_construct_size_t OSSL_MAC_PARAM_SIZE 32]), [[]])"
  by (simp add: EVP_MAC_CTX_get_mac_size_def deref_ctx_def deref_mac_def stub_defs)

subsection \<open>Probe-mode finalization\<close>

text \<open>
  Claim C4, amended. For every live context whose descriptor provides a finalizer, a
  probe-mode \<open>EVP_MAC_final\<close> (output buffer absent, length out-parameter present)
  returns 1 and reports exactly the length \<open>EVP_MAC_CTX_get_mac_size\<close> reports. It
  changes neither the context's fields nor the descriptors nor the error queue; the
  backend state after it is the backend state the size query leaves, which is in the
  hands of the get handler asked. Whenever the size query leaves the state as it is, so
  does the probe, and a compute-mode call after the probe is then the compute-mode call
  without the probe.
\<close>

theorem probe_reports_size:
  assumes "ctx_meth st ctx = Inr (c, m)" and "final m = Some fin"
  shows "(\<exists>sz w. EVP_MAC_CTX_get_mac_size ctx st = Inr (sz, st\<lparr>backend := w\<rparr>)
            \<and> EVP_MAC_final (Some ctx) False True outsize st =
                Inr ((1, None, Some sz), st\<lparr>backend := w\<rparr>))
     \<and> (\<forall>sz. EVP_MAC_CTX_get_mac_size ctx st = Inr (sz, st) \<longrightarrow>
           EVP_MAC_final (Some ctx) False True outsize st = Inr ((1, None, Some sz), st)
           \<and> (case EVP_MAC_final (Some ctx) False True outsize st of
                 Inl f \<Rightarrow> Inl f
               | Inr (r, st1) \<Rightarrow> EVP_MAC_final (Some ctx) True outl n st1) =
               EVP_MAC_final (Some ctx) True outl n st)"
proof -
  have p: "EVP_MAC_final (Some ctx) False True outsize st =
           (case EVP_MAC_CTX_get_mac_size ctx st of
              Inl f \<Rightarrow> Inl f
            | Inr (sz, st1) \<Rightarrow> Inr ((1, None, Some sz), st1))"
    using assms
    by (auto simp: EVP_MAC_final_def evp_mac_final_def ctx_meth_live deref_ctx_def deref_mac_def)
  obtain sz w where sz: "EVP_MAC_CTX_get_mac_size ctx st = Inr (sz, st\<lparr>backend := w\<rparr>)"
    using get_mac_size_backend [OF assms(1)] by blast
  have "EVP_MAC_final (Some ctx) False True outsize st = Inr ((1, None, Some sz), st\<lparr>backend := w\<rparr>)"
    using p sz by simp
  then show ?thesis using sz p by auto
qed

theorem probe_reports_size_witness:
  "EVP_MAC_final (Some 0) False True 0 (stub_ctx_state stub32 (Some 0) [1, 2, 3]) =
     Inr ((1, None, Some 32), stub_ctx_state stub32 (Some 0) [1, 2, 3])"
proof -
  have f: "final (stub32\<lparr>refcnt := 2\<rparr>) = Some stub_final" by (simp add: stub32_def)
  have s: "EVP_MAC_CTX_get_mac_size 0 (stub_ctx_state stub32 (Some 0) [1, 2, 3]) =
             Inr (32, stub_ctx_state stub32 (Some 0) [1, 2, 3])"
    by (simp add: EVP_MAC_CTX_get_mac_size_def deref_ctx_def deref_mac_def stub_defs)
  show ?thesis
    using probe_reports_size [OF ctx_meth_stub [of stub32 "Some 0" "[1, 2, 3]"] f, where outsize = 0] s
    by blast
qed

text \<open>
  The claim as it was stated fails twice. On a context whose descriptor provides no
  finalizer the probe does not succeed: it returns 0, reports no length and raises
  \<open>EVP_R_FINAL_ERROR\<close>. And the probe hands the context's backend state to the
  backend's get handler: with a get handler that empties the context's buffer, the
  buffer \<open>[1, 2, 3]\<close> is empty after the probe, and the compute-mode call that would
  have written \<open>1, 2, 3, 0, ...\<close> writes zeros.
\<close>

theorem probe_counterexample:
  "EVP_MAC_final (Some 0) False True 0 (stub_ctx_state (stub32\<lparr>final := None\<rparr>) (Some 0) []) =
     Inr ((0, None, None),
          ERR_raise EVP_R_FINAL_ERROR (stub_ctx_state (stub32\<lparr>final := None\<rparr>) (Some 0) []))
   \<and> EVP_MAC_final (Some 0) False True 0
       (stub_ctx_state (stub32\<lparr>get_ctx_params := Some stub_get_ctx_reset\<rparr>) (Some 0) [1, 2, 3]) =
     Inr ((1, None, Some 32),
          stub_ctx_state (stub32\<lparr>get_ctx_params := Some stub_get_ctx_reset\<rparr>) (Some 0) [])
   \<and> EVP_MAC_final (Some 0) True True 32
       (stub_ctx_state (stub32\<lparr>get_ctx_params := Some stub_get_ctx_reset\<rparr>) (Some 0) [1, 2, 3]) =
     Inr ((1, Some (take 32 ([1, 2, 3] @ replicate 32 0)), Some 32),
          stub_ctx_state (stub32\<lparr>get_ctx_params := Some stub_get_ctx_reset\<rparr>) (Some 0) [1, 2, 3])
   \<and> EVP_MAC_final (Some 0) True True 32
       (stub_ctx_state (stub32\<lparr>get_ctx_params := Some stub_get_ctx_reset\<rparr>) (Some 0) []) =
     Inr ((1, Some (take 32 ([] @ replicate 32 0)), Some 32),
          stub_ctx_state (stub32\<lparr>get_ctx_params := Some stub_get_ctx_reset\<rparr>) (Some 0) [])
   \<and> hd (take 32 ([1, 2, 3] @ replicate 32 (0 :: byte))) = 1
   \<and> hd (take 32 ([] @ replicate 32 (0 :: byte))) = 0"
  by (simp add: EVP_MAC_final_def evp_mac_final_def EVP_MAC_CTX_get_mac_size_def
      deref_ctx_def deref_mac_def stub_defs hd_replicate)

subsection \<open>Extendable-output finalization\<close>




subsection \<open>Getting and setting parameters\<close>

text \<open>
  Claim C6. For every live descriptor and every live context, each of
  \<open>EVP_MAC_get_params\<close>, \<open>EVP_MAC_CTX_get_params\<close> and \<open>EVP_MAC_CTX_set_params\<close>
  returns 1 with no effect (the bag and the state are as before) when the table has no
  corresponding handler, and otherwise returns exactly what the handler returns: its
  result, the bag it filled, and the backend state it left.
\<close>

theorem params_passthrough:
  assumes "ctx_meth st ctx = Inr (c, m)" and "macs st mac = Some m'"
  shows "EVP_MAC_get_params mac params st =
           Inr (case get_params m' of None \<Rightarrow> ((1, params), st)
                | Some get \<Rightarrow> (fst (get params (backend st)),
                               st\<lparr>backend := snd (get params (backend st))\<rparr>))
     \<and> EVP_MAC_CTX_get_params ctx params st =
           Inr (case get_ctx_params m of None \<Rightarrow> ((1, params), st)
                | Some get \<Rightarrow> (fst (get (data c) params (backend st)),
                               st\<lparr>backend := snd (get (data c) params (backend st))\<rparr>))
     \<and> EVP_MAC_CTX_set_params ctx params st =
           Inr (case set_ctx_params m of None \<Rightarrow> (1, st)
                | Some setp \<Rightarrow> (fst (setp (data c) params (backend st)),
                                st\<lparr>backend := snd (setp (data c) params (backend st))\<rparr>))"
  using assms
  by (auto simp: EVP_MAC_get_params_def EVP_MAC_CTX_get_params_def EVP_MAC_CTX_set_params_def
      ctx_meth_def deref_ctx_def deref_mac_def split: option.splits prod.splits sum.splits)

theorem params_passthrough_witness:
  "EVP_MAC_get_params 0 [OSSL_PARAM ''size'' (PARAM_UNSIGNED_INTEGER 0)]
       (stub_ctx_state stub32 (Some 0) []) =
     Inr ((1, [OSSL_PARAM ''size'' (PARAM_UNSIGNED_INTEGER 0)]), stub_ctx_state stub32 (Some 0) [])
   \<and> EVP_MAC_CTX_get_params 0 [OSSL_PARAM ''size'' (PARAM_UNSIGNED_INTEGER 0)]
       (stub_ctx_state stub32 (Some 0) []) =
     Inr ((1, [OSSL_PARAM ''size'' (PARAM_UNSIGNED_INTEGER 32)]), stub_ctx_state stub32 (Some 0) [])
   \<and> EVP_MAC_CTX_set_params 0 [OSSL_PARAM ''xof'' (PARAM_INTEGER 1)]
       (stub_ctx_state stub32 (Some 0) []) =
     Inr (1, stub_ctx_state stub32 (Some 0) [])
   \<and> EVP_MAC_CTX_set_params 0 [OSSL_PARAM ''xof'' (PARAM_INTEGER 1)]
       (stub_ctx_state (stub32\<lparr>set_ctx_params := Some stub_set_reject\<rparr>) (Some 0) []) =
     Inr (0, stub_ctx_state (stub32\<lparr>set_ctx_params := Some stub_set_reject\<rparr>) (Some 0) [])"
proof -
  show ?thesis
    using params_passthrough [OF ctx_meth_stub [of stub32 "Some 0" "[]"] stub_ctx_state_live(2),
        of "[OSSL_PARAM ''size'' (PARAM_UNSIGNED_INTEGER 0)]"]
      params_passthrough [OF ctx_meth_stub [of stub32 "Some 0" "[]"] stub_ctx_state_live(2),
        of "[OSSL_PARAM ''xof'' (PARAM_INTEGER 1)]"]
      params_passthrough [OF ctx_meth_stub
          [of "stub32\<lparr>set_ctx_params := Some stub_set_reject\<rparr>" "Some 0" "[]"]
          stub_ctx_state_live(2),
        of "[OSSL_PARAM ''xof'' (PARAM_INTEGER 1)]"]
    by (simp add: stub32_def stub_get_ctx_params_def stub_set_reject_def OSSL_MAC_PARAM_SIZE_def
        stub_ctx_state_def)
qed

subsection \<open>Freeing a context\<close>

text \<open>
  Claim C7, amended. \<open>EVP_MAC_CTX_free\<close> of the null handle is a no-op. Freeing a live
  context (whose descriptor declares a destructor) calls the destructor on the context's
  backend state, releases the descriptor exactly once (its reference count is one lower;
  at zero the descriptor is torn down), removes the context and raises no error. The
  handle is dangling afterwards; the function has no means to recognise a handle that
  was freed before, and freeing one is not part of this statement.
\<close>

theorem free_releases_once:
  assumes "ctxs st a = Some c" and "meth c = Some mac" and "macs st mac = Some m"
    and "freectx m = Some free"
  shows "EVP_MAC_CTX_free None st = Inr st
   \<and> EVP_MAC_CTX_free (Some a) st =
       Inr (st\<lparr>backend := free (data c) (backend st),
               ctxs := (ctxs st)(a := None),
               macs := (if refcnt m - 1 = 0 then (macs st)(mac := None)
                        else (macs st)(mac \<mapsto> m\<lparr>refcnt := refcnt m - 1\<rparr>))\<rparr>)
   \<and> (case EVP_MAC_CTX_free (Some a) st of
         Inl f \<Rightarrow> False
       | Inr st' \<Rightarrow> refcount st' mac = refcount st mac - 1 \<and> ctxs st' a = None
                    \<and> errs st' = errs st)"
  using free_live [OF assms] assms(3) by (simp add: free_null refcount_def)

theorem free_releases_once_witness:
  "EVP_MAC_CTX_free (Some 0) (stub_ctx_state stub32 (Some 0) [1, 2, 3]) =
     Inr \<lparr>macs = [0 \<mapsto> stub32], ctxs = Map.empty, backend = [[]], heap_next = 1, errs = []\<rparr>"
proof -
  have h: "meth \<lparr>meth = Some 0, data = Some (0::nat)\<rparr> = Some 0"
    "freectx (stub32\<lparr>refcnt := 2\<rparr>) = Some stub_free"
    by (simp_all add: stub32_def)
  show ?thesis
    using free_releases_once [OF stub_ctx_state_live(1) h(1) stub_ctx_state_live(2) h(2)]
    by (simp add: stub_free_def stub_ctx_state_def stub32_def)
qed

text \<open>
  Freeing the same handle a second time is not a no-op: the call reads through the
  dangling pointer.
\<close>

theorem free_twice_counterexample:
  "EVP_MAC_CTX_free (Some 0) (stub_ctx_state stub32 (Some 0) [1, 2, 3]) =
     Inr \<lparr>macs = [0 \<mapsto> stub32], ctxs = Map.empty, backend = [[]], heap_next = 1, errs = []\<rparr>
   \<and> EVP_MAC_CTX_free (Some 0)
       \<lparr>macs = [0 \<mapsto> stub32], ctxs = Map.empty, backend = [[]], heap_next = 1, errs = []\<rparr> =
     Inl Invalid_pointer"
  by (simp add: EVP_MAC_CTX_free_def heap_defs stub_ctx_state_def stub32_def stub_free_def)

subsection \<open>The reference count over a sequence of calls\<close>



subsection \<open>Finalization without any out-parameter\<close>

text \<open>
  Claim C9, amended. For every live context, \<open>EVP_MAC_final\<close> with both the output
  buffer and the length out-parameter absent returns 0, writes nothing and changes
  nothing but the error queue. The error raised is \<open>ERR_R_PASSED_NULL_PARAMETER\<close> when
  the context's descriptor provides a finalizer; the test for a missing finalizer comes
  first and raises \<open>EVP_R_FINAL_ERROR\<close> instead.
\<close>

theorem final_both_null:
  assumes "ctx_meth st ctx = Inr (c, m)"
  shows "EVP_MAC_final (Some ctx) False False outsize st =
     Inr ((0, None, None),
          ERR_raise (if final m = None then EVP_R_FINAL_ERROR else ERR_R_PASSED_NULL_PARAMETER) st)"
  using assms
  by (auto simp: EVP_MAC_final_def evp_mac_final_def ctx_meth_live deref_ctx_def deref_mac_def)

theorem final_both_null_witness:
  "EVP_MAC_final (Some 0) False False 32 (stub_ctx_state stub32 (Some 0) []) =
     Inr ((0, None, None),
          ERR_raise ERR_R_PASSED_NULL_PARAMETER (stub_ctx_state stub32 (Some 0) []))"
  using final_both_null [OF ctx_meth_stub [of stub32 "Some 0" "[]"], where outsize = 32]
  by (simp add: stub32_def)

text \<open>
  On a context whose descriptor provides no finalizer, the error raised is not the
  null-parameter error.
\<close>

theorem final_both_null_counterexample:
  "EVP_MAC_final (Some 0) False False 32 (stub_ctx_state (stub32\<lparr>final := None\<rparr>) (Some 0) []) =
     Inr ((0, None, None),
          ERR_raise EVP_R_FINAL_ERROR (stub_ctx_state (stub32\<lparr>final := None\<rparr>) (Some 0) []))
   \<and> EVP_R_FINAL_ERROR \<noteq> ERR_R_PASSED_NULL_PARAMETER"
  by (simp add: EVP_MAC_final_def evp_mac_final_def deref_ctx_def deref_mac_def stub_defs)

end
